theory Spec2Isabelle
  imports Complex_Main
begin

section \<open>The heater temperature function of the PINN tutorial\<close>

text \<open>
  Cell 2 of \<^verbatim>\<open>Introduction_Tutorial_PINNs.ipynb\<close>:
  \<^verbatim>\<open>
  u_0          = 16 # initial temperature
  u_heater_max = 40 # maximal temperature of the heater
  t_heater_max = 5  # time at which the heater reaches its maximal temperature

  def h(t):
      ht = u_0 + (u_heater_max - u_0) / t_heater_max * t
      ht[t>t_heater_max] = u_heater_max
      return ht
  \<close>
  An array of shape (n) or (n, 1) is a list of its n entries. The entries are real numbers:
  the arithmetic of the model is exact, the rounding of the floating-point formats of
  numpy and torch is not part of it.
\<close>

type_synonym ndarray = "real list"

definition u_0 :: real where
  "u_0 = 16"

definition u_heater_max :: real where
  "u_heater_max = 40"

definition t_heater_max :: real where
  "t_heater_max = 5"

text \<open>\<^verbatim>\<open>c0 + c1 * t\<close> with scalars \<^verbatim>\<open>c0\<close>, \<^verbatim>\<open>c1\<close>: a new array, entry by entry.\<close>

definition affine :: "real \<Rightarrow> real \<Rightarrow> ndarray \<Rightarrow> ndarray" where
  "affine c0 c1 t = map (\<lambda>ti. c0 + c1 * ti) t"

text \<open>\<^verbatim>\<open>t > c\<close>: the boolean mask of the entries above the scalar \<^verbatim>\<open>c\<close>.\<close>

definition gt_scalar :: "ndarray \<Rightarrow> real \<Rightarrow> bool list" where
  "gt_scalar t c = map (\<lambda>ti. ti > c) t"

text \<open>
  \<^verbatim>\<open>a[mask] = c\<close> with a scalar \<^verbatim>\<open>c\<close> and a mask of the shape of \<^verbatim>\<open>a\<close>: the entries
  under the mask become \<^verbatim>\<open>c\<close>, the others stay. (In \<^verbatim>\<open>h\<close> the mask and the array
  are both computed from \<^verbatim>\<open>t\<close>, so their shapes agree.)
\<close>

definition setitem_mask :: "bool list \<Rightarrow> real \<Rightarrow> ndarray \<Rightarrow> ndarray" where
  "setitem_mask msk c a = map (\<lambda>(m, v). if m then c else v) (zip msk a)"

definition h :: "ndarray \<Rightarrow> ndarray" where
  "h t = (let ht = affine u_0 ((u_heater_max - u_0) / t_heater_max) t
          in setitem_mask (gt_scalar t t_heater_max) u_heater_max ht)"

subsection \<open>The same function on an object store\<close>

text \<open>
  To speak about what \<^verbatim>\<open>h\<close> writes, arrays live in a store and are passed by reference:
  an address is an index into the store, \<^verbatim>\<open>u_0 + ... * t\<close> allocates its result at a
  fresh address, and \<^verbatim>\<open>ht[...] = u_heater_max\<close> overwrites the array at the address of
  \<^verbatim>\<open>ht\<close> in place. \<^verbatim>\<open>h_store\<close> returns the address of the result and the new store;
  it is \<open>None\<close> when the argument is not the address of an array.
\<close>

type_synonym store = "ndarray list"

definition alloc :: "ndarray \<Rightarrow> store \<Rightarrow> nat \<times> store" where
  "alloc a s = (length s, s @ [a])"

definition setitem_mask_at :: "nat \<Rightarrow> bool list \<Rightarrow> real \<Rightarrow> store \<Rightarrow> store" where
  "setitem_mask_at p msk c s = s[p := setitem_mask msk c (s ! p)]"

definition h_store :: "nat \<Rightarrow> store \<Rightarrow> (nat \<times> store) option" where
  "h_store t s =
     (if t < length s then
        (let (ht, s1) = alloc (affine u_0 ((u_heater_max - u_0) / t_heater_max) (s ! t)) s;
             s2 = setitem_mask_at ht (gt_scalar (s1 ! t) t_heater_max) u_heater_max s1
         in Some (ht, s2))
      else None)"

section \<open>The residual functions of the boundary conditions\<close>

text \<open>
  Step 3 of \<^verbatim>\<open>Introduction_Tutorial_PINNs.ipynb\<close>. \<^verbatim>\<open>u\<close> and \<^verbatim>\<open>t\<close> are tensors of
  shape (n, 1), lists of n reals; \<^verbatim>\<open>x\<close> has shape (n, 2), a list of n rows.
  An operation that torch rejects for the shapes of its operands returns its error.
\<close>

type_synonym points = "(real \<times> real) list"

datatype py_error = RuntimeError | IndexError

text \<open>
  \<^verbatim>\<open>a - b\<close> on two tensors of shape (n, 1) and (m, 1): entry by entry when \<open>n = m\<close>,
  a single row is broadcast against the other operand, any other pair of shapes is an error.
\<close>

definition sub_tensor :: "ndarray \<Rightarrow> ndarray \<Rightarrow> py_error + ndarray" where
  "sub_tensor a b =
     (if length a = length b then Inr (map (\<lambda>(ai, bi). ai - bi) (zip a b))
      else if length a = 1 then Inr (map (\<lambda>bi. hd a - bi) b)
      else if length b = 1 then Inr (map (\<lambda>ai. ai - hd b) a)
      else Inl RuntimeError)"

text \<open>
  \<^verbatim>\<open>
  def residual_dirichlet_condition(u, t):
      return u - h(t)
  \<close>
\<close>

definition residual_dirichlet_condition :: "ndarray \<Rightarrow> ndarray \<Rightarrow> py_error + ndarray" where
  "residual_dirichlet_condition u t = sub_tensor u (h t)"

text \<open>
  \<^verbatim>\<open>
  def residual_neumann_condition(u, x):
      normal_vectors    = Omega.boundary.normal(x)
      normal_derivative = tp.utils.normal_derivative(u, normal_vectors, x)
      return normal_derivative
  \<close>
  \<^verbatim>\<open>Omega.boundary.normal\<close> and \<^verbatim>\<open>tp.utils.normal_derivative\<close> belong to the library
  the notebook calls; they are the parameters \<open>normal\<close> and \<open>normal_derivative\<close>.
\<close>

definition residual_neumann_condition ::
  "(points \<Rightarrow> points) \<Rightarrow> (ndarray \<Rightarrow> points \<Rightarrow> points \<Rightarrow> ndarray) \<Rightarrow> ndarray \<Rightarrow> points \<Rightarrow> ndarray" where
  "residual_neumann_condition normal normal_derivative u x =
     (let normal_vectors = normal x;
          nd = normal_derivative u normal_vectors x
      in nd)"

text \<open>The columns \<^verbatim>\<open>x[:, 0]\<close> and \<^verbatim>\<open>x[:, 1]\<close>, the comparisons with a scalar and \<^verbatim>\<open>&\<close>.\<close>

definition col0 :: "points \<Rightarrow> ndarray" where
  "col0 x = map fst x"

definition col1 :: "points \<Rightarrow> ndarray" where
  "col1 x = map snd x"

definition ge_scalar :: "ndarray \<Rightarrow> real \<Rightarrow> bool list" where
  "ge_scalar a c = map (\<lambda>ai. ai \<ge> c) a"

definition le_scalar :: "ndarray \<Rightarrow> real \<Rightarrow> bool list" where
  "le_scalar a c = map (\<lambda>ai. ai \<le> c) a"

definition mask_and :: "bool list \<Rightarrow> bool list \<Rightarrow> bool list" where
  "mask_and p q = map (\<lambda>(pi, qi). pi \<and> qi) (zip p q)"

text \<open>
  \<^verbatim>\<open>heater_location = (x[:, 0] >= 1 ) & (x[:, 0] <= 3) & (x[:, 1] >= 3.99)\<close>
\<close>

definition heater_location :: "points \<Rightarrow> bool list" where
  "heater_location x =
     mask_and (mask_and (ge_scalar (col0 x) 1) (le_scalar (col0 x) 3)) (ge_scalar (col1 x) (399 / 100))"

text \<open>
  \<^verbatim>\<open>a[mask]\<close>: the rows of \<^verbatim>\<open>a\<close> under the mask, in order. The mask must have as many
  entries as \<^verbatim>\<open>a\<close> has rows.
\<close>

definition getitem_mask :: "bool list \<Rightarrow> ndarray \<Rightarrow> py_error + ndarray" where
  "getitem_mask msk a =
     (if length msk = length a then Inr (map snd (filter fst (zip msk a))) else Inl IndexError)"

text \<open>
  \<^verbatim>\<open>a[mask] = vals\<close>, in place: the rows of \<^verbatim>\<open>a\<close> under the mask are overwritten, in
  order, by the rows of \<^verbatim>\<open>vals\<close>. There must be as many values as rows under the mask
  (or a single one, which is broadcast).
\<close>

fun scatter_rows :: "bool list \<Rightarrow> ndarray \<Rightarrow> ndarray \<Rightarrow> ndarray" where
  "scatter_rows (m # ms) (a # as) (v # vs) =
     (if m then v # scatter_rows ms as vs else a # scatter_rows ms as (v # vs))"
| "scatter_rows ms as vs = as"

definition setitem_mask_rows :: "bool list \<Rightarrow> ndarray \<Rightarrow> ndarray \<Rightarrow> py_error + ndarray" where
  "setitem_mask_rows msk vals a =
     (if length msk \<noteq> length a then Inl IndexError
      else if length vals = length (filter id msk) then Inr (scatter_rows msk a vals)
      else if length vals = 1 then Inr (setitem_mask msk (hd vals) a)
      else Inl RuntimeError)"

text \<open>
  \<^verbatim>\<open>
  def residual_boundary_condition(u, x, t):
      heater_location           = (x[:, 0] >= 1 ) & (x[:, 0] <= 3) & (x[:, 1] >= 3.99)
      residual                  = residual_neumann_condition(u, x)
      residual_h                = residual_dirichlet_condition(u, t)
      residual[heater_location] = residual_h[heater_location]
      return residual
  \<close>
\<close>

definition residual_boundary_condition ::
  "(points \<Rightarrow> points) \<Rightarrow> (ndarray \<Rightarrow> points \<Rightarrow> points \<Rightarrow> ndarray) \<Rightarrow>
   ndarray \<Rightarrow> points \<Rightarrow> ndarray \<Rightarrow> py_error + ndarray" where
  "residual_boundary_condition normal normal_derivative u x t =
     (let heater = heater_location x;
          residual = residual_neumann_condition normal normal_derivative u x
      in case residual_dirichlet_condition u t of
           Inl e \<Rightarrow> Inl e
         | Inr residual_h \<Rightarrow>
             (case getitem_mask heater residual_h of
                Inl e \<Rightarrow> Inl e
              | Inr rows \<Rightarrow> setitem_mask_rows heater rows residual))"

section \<open>The packaging workflow\<close>

text \<open>
  The workflow file \<^verbatim>\<open>Build and upload to PyPI\<close> is data: triggers, an environment, and
  jobs made of steps. The embedding keeps that data as it is written and gives it the
  meaning the workflow runner gives it: \<^verbatim>\<open>on\<close> selects the events that start a run,
  \<^verbatim>\<open>needs\<close> and \<^verbatim>\<open>if\<close> decide which jobs of a run are started, \<^verbatim>\<open>strategy.matrix\<close>
  instantiates a job, and a step either uses an action or runs a script.
\<close>

subsection \<open>Events, triggers and conditions\<close>

record event =
  event_name :: string
  event_action :: "string option"

datatype trigger = Workflow_dispatch | Release "string list"

text \<open>
  \<^verbatim>\<open>workflow_dispatch:\<close> matches a manual dispatch; \<^verbatim>\<open>release: types: [...]\<close> matches a
  release event whose activity type is one of the listed types.
\<close>

fun trigger_matches :: "trigger \<Rightarrow> event \<Rightarrow> bool" where
  "trigger_matches Workflow_dispatch ev = (event_name ev = ''workflow_dispatch'')"
| "trigger_matches (Release types) ev =
     (event_name ev = ''release'' \<and>
      (case event_action ev of None \<Rightarrow> False | Some a \<Rightarrow> a \<in> set types))"

text \<open>The fragment of the expression language that the \<^verbatim>\<open>if:\<close> of the workflow uses.\<close>

datatype expr = Event_name_eq string | Event_action_eq string | And expr expr

fun eval :: "event \<Rightarrow> expr \<Rightarrow> bool" where
  "eval ev (Event_name_eq s) = (event_name ev = s)"
| "eval ev (Event_action_eq s) = (event_action ev = Some s)"
| "eval ev (And a b) = (eval ev a \<and> eval ev b)"

subsection \<open>Steps, jobs and the workflow\<close>

text \<open>
  A value of a \<^verbatim>\<open>with:\<close> block is text with embedded expressions \<^verbatim>\<open>${{ ... }}\<close>;
  \<open>Expr\<close> holds the expression between the braces. \<open>render\<close> substitutes the values of
  a context; an expression the context does not define renders as the empty string.
\<close>

datatype piece = Lit string | Expr string

type_synonym template = "piece list"

fun render_piece :: "(string \<times> string) list \<Rightarrow> piece \<Rightarrow> string" where
  "render_piece ctx (Lit s) = s"
| "render_piece ctx (Expr e) = (case map_of ctx e of None \<Rightarrow> [] | Some v \<Rightarrow> v)"

definition render :: "(string \<times> string) list \<Rightarrow> template \<Rightarrow> string" where
  "render ctx t = concat (map (render_piece ctx) t)"

datatype action = Uses string "(string \<times> template) list" | Run "string list"

record step =
  step_name :: "string option"
  act :: action

record job =
  job_id :: string
  job_name :: "string option"
  runs_on :: "string list"
  matrix_os :: "string list"
  needs :: "string list"
  if_cond :: "expr option"
  steps :: "step list"

record workflow =
  workflow_name :: string
  on_events :: "trigger list"
  env :: "(string \<times> string) list"
  jobs :: "job list"

text \<open>
  \<^verbatim>\<open>
  build_wheels:
    name: Build wheels on [ ubuntu-latest ]
    runs-on: [ ubuntu-latest ]
    strategy:
      matrix:
        os: [ubuntu-latest] #, windows-latest]
    steps:
      - uses: actions/checkout@v4
        with:
          fetch-depth: 0
      - uses: actions/setup-python@v5
        name: Install Python
        with:
          python-version: '3.10'
      - name: Install cibuildwheel
        run: |
          # python -m pip install cibuildwheel
          pip install -U setuptools setuptools_scm wheel
      - name: Build wheels
        run: |
          # python -m cibuildwheel --output-dir wheelhouse
          python setup.py bdist_wheel
      - uses: actions/upload-artifact@v4
        with:
          name: artifact-wheel-${{ matrix.os }}
          path: ./dist/*.whl
  \<close>
\<close>

definition build_wheels :: job where
  "build_wheels =
     \<lparr>job_id = ''build_wheels'',
      job_name = Some ''Build wheels on [ ubuntu-latest ]'',
      runs_on = [''ubuntu-latest''],
      matrix_os = [''ubuntu-latest''],
      needs = [],
      if_cond = None,
      steps =
        [\<lparr>step_name = None,
          act = Uses ''actions/checkout@v4'' [(''fetch-depth'', [Lit ''0''])]\<rparr>,
         \<lparr>step_name = Some ''Install Python'',
          act = Uses ''actions/setup-python@v5'' [(''python-version'', [Lit ''3.10''])]\<rparr>,
         \<lparr>step_name = Some ''Install cibuildwheel'',
          act = Run [''# python -m pip install cibuildwheel'',
                     ''pip install -U setuptools setuptools_scm wheel'']\<rparr>,
         \<lparr>step_name = Some ''Build wheels'',
          act = Run [''# python -m cibuildwheel --output-dir wheelhouse'',
                     ''python setup.py bdist_wheel'']\<rparr>,
         \<lparr>step_name = None,
          act = Uses ''actions/upload-artifact@v4''
                  [(''name'', [Lit ''artifact-wheel-'', Expr ''matrix.os'']),
                   (''path'', [Lit ''./dist/*.whl''])]\<rparr>]\<rparr>"

text \<open>
  \<^verbatim>\<open>
  build_sdist:
    name: Build source distribution
    runs-on: ubuntu-latest
    steps:
      - uses: actions/checkout@v4
        with:
          fetch-depth: 0
      - uses: actions/setup-python@v5
        name: Install Python
        with:
          python-version: '3.10'
      - name: Install setuptools
        run: |
          pip install -U setuptools setuptools_scm wheel
      - name: Build sdist
        run: python setup.py sdist
      - uses: actions/upload-artifact@v4
        with:
          name: artifact-sdist
          path: dist/*.tar.gz
  \<close>
\<close>

definition build_sdist :: job where
  "build_sdist =
     \<lparr>job_id = ''build_sdist'',
      job_name = Some ''Build source distribution'',
      runs_on = [''ubuntu-latest''],
      matrix_os = [],
      needs = [],
      if_cond = None,
      steps =
        [\<lparr>step_name = None,
          act = Uses ''actions/checkout@v4'' [(''fetch-depth'', [Lit ''0''])]\<rparr>,
         \<lparr>step_name = Some ''Install Python'',
          act = Uses ''actions/setup-python@v5'' [(''python-version'', [Lit ''3.10''])]\<rparr>,
         \<lparr>step_name = Some ''Install setuptools'',
          act = Run [''pip install -U setuptools setuptools_scm wheel'']\<rparr>,
         \<lparr>step_name = Some ''Build sdist'',
          act = Run [''python setup.py sdist'']\<rparr>,
         \<lparr>step_name = None,
          act = Uses ''actions/upload-artifact@v4''
                  [(''name'', [Lit ''artifact-sdist'']),
                   (''path'', [Lit ''dist/*.tar.gz''])]\<rparr>]\<rparr>"

text \<open>
  \<^verbatim>\<open>
  upload_pypi:
    needs: [build_wheels, build_sdist]
    runs-on: ubuntu-latest
    if: github.event_name == 'release' && github.event.action == 'published'
    steps:
      - uses: actions/download-artifact@v4
        with:
          name: artifact-sdist
          path: dist
      - uses: actions/download-artifact@v4
        with:
          name: artifact-wheel-ubuntu-latest
          path: dist
      - uses: pypa/gh-action-pypi-publish@v1.10.2
        with:
          user: __token__
          password: ${{ secrets.upload_pypi }}
  \<close>
\<close>

definition upload_pypi :: job where
  "upload_pypi =
     \<lparr>job_id = ''upload_pypi'',
      job_name = None,
      runs_on = [''ubuntu-latest''],
      matrix_os = [],
      needs = [''build_wheels'', ''build_sdist''],
      if_cond = Some (And (Event_name_eq ''release'') (Event_action_eq ''published'')),
      steps =
        [\<lparr>step_name = None,
          act = Uses ''actions/download-artifact@v4''
                  [(''name'', [Lit ''artifact-sdist'']), (''path'', [Lit ''dist''])]\<rparr>,
         \<lparr>step_name = None,
          act = Uses ''actions/download-artifact@v4''
                  [(''name'', [Lit ''artifact-wheel-ubuntu-latest'']), (''path'', [Lit ''dist''])]\<rparr>,
         \<lparr>step_name = None,
          act = Uses ''pypa/gh-action-pypi-publish@v1.10.2''
                  [(''user'', [Lit ''__token__'']),
                   (''password'', [Expr ''secrets.upload_pypi''])]\<rparr>]\<rparr>"

text \<open>
  \<^verbatim>\<open>
  name: Build and upload to PyPI
  on:
    workflow_dispatch:
    release:
      types: [published]
  env:
    CIBW_BUILD: cp37-* cp38-* cp39-* cp310-*
    CIBW_BEFORE_BUILD: pip install cython
    CIBW_MANYLINUX_X86_64_IMAGE: manylinux2014
    CIBW_MANYLINUX_I686_IMAGE: manylinux2014
  \<close>
\<close>

definition packaging_workflow :: workflow where
  "packaging_workflow =
     \<lparr>workflow_name = ''Build and upload to PyPI'',
      on_events = [Workflow_dispatch, Release [''published'']],
      env = [(''CIBW_BUILD'', ''cp37-* cp38-* cp39-* cp310-*''),
             (''CIBW_BEFORE_BUILD'', ''pip install cython''),
             (''CIBW_MANYLINUX_X86_64_IMAGE'', ''manylinux2014''),
             (''CIBW_MANYLINUX_I686_IMAGE'', ''manylinux2014'')],
      jobs = [build_wheels, build_sdist, upload_pypi]\<rparr>"

subsection \<open>Runs of the workflow\<close>

text \<open>An event starts a run when one of the triggers under \<^verbatim>\<open>on\<close> matches it.\<close>

definition triggered :: "workflow \<Rightarrow> event \<Rightarrow> bool" where
  "triggered wfl ev = list_ex (\<lambda>t. trigger_matches t ev) (on_events wfl)"

text \<open>
  A run is its triggering event together with the jobs that fail when they are started
  (a build that breaks, an upload that is refused): whether the steps of a started job
  succeed is decided outside the workflow file.
\<close>

record run =
  trigger_event :: event
  failing :: "string list"

datatype status = Success | Failure | Skipped

text \<open>
  A job is started when every job it \<^verbatim>\<open>needs\<close> has succeeded and its \<^verbatim>\<open>if\<close> (when it
  has one) holds for the event; otherwise it is skipped. \<open>decided\<close> holds the status of the
  jobs decided so far. The jobs are decided in the order of the file, in which every job
  comes after the jobs it needs.
\<close>

definition job_status :: "run \<Rightarrow> (string \<times> status) list \<Rightarrow> job \<Rightarrow> status" where
  "job_status r decided j =
     (if list_all (\<lambda>n. map_of decided n = Some Success) (needs j)
         \<and> (case if_cond j of None \<Rightarrow> True | Some e \<Rightarrow> eval (trigger_event r) e)
      then (if job_id j \<in> set (failing r) then Failure else Success)
      else Skipped)"

fun job_statuses :: "run \<Rightarrow> job list \<Rightarrow> (string \<times> status) list \<Rightarrow> (string \<times> status) list" where
  "job_statuses r [] decided = decided"
| "job_statuses r (j # js) decided = job_statuses r js (decided @ [(job_id j, job_status r decided j)])"

text \<open>The statuses of the jobs of a run; \<open>None\<close> when the event starts no run.\<close>

definition run_workflow :: "workflow \<Rightarrow> run \<Rightarrow> (string \<times> status) list option" where
  "run_workflow wfl r =
     (if triggered wfl (trigger_event r) then Some (job_statuses r (jobs wfl) []) else None)"

definition started :: "(string \<times> status) list \<Rightarrow> string \<Rightarrow> bool" where
  "started sts j = (map_of sts j = Some Success \<or> map_of sts j = Some Failure)"

subsection \<open>What the jobs do\<close>

text \<open>
  The instances of a job: one for each value of \<^verbatim>\<open>matrix.os\<close>, each with that value in
  its context, or a single instance with an empty context when the job has no matrix.
\<close>

definition instances :: "job \<Rightarrow> (string \<times> string) list list" where
  "instances j = (if matrix_os j = [] then [[]] else map (\<lambda>os. [(''matrix.os'', os)]) (matrix_os j))"

text \<open>
  The artifact (name and path) that a step uploads in a context: a step that uses
  \<^verbatim>\<open>actions/upload-artifact@v4\<close> uploads the files matching \<^verbatim>\<open>path\<close> under \<^verbatim>\<open>name\<close>.
\<close>

definition step_artifact :: "(string \<times> string) list \<Rightarrow> step \<Rightarrow> (string \<times> string) list" where
  "step_artifact ctx s =
     (case act s of
        Uses a args \<Rightarrow>
          (if a = ''actions/upload-artifact@v4'' then
             (case (map_of args ''name'', map_of args ''path'') of
                (Some n, Some p) \<Rightarrow> [(render ctx n, render ctx p)]
              | _ \<Rightarrow> [])
           else [])
      | Run ls \<Rightarrow> [])"

definition job_artifacts :: "job \<Rightarrow> (string \<times> string) list" where
  "job_artifacts j = concat (map (\<lambda>ctx. concat (map (step_artifact ctx) (steps j))) (instances j))"

text \<open>
  The artifacts uploaded in a run: those of the jobs that succeeded, which have run all
  their steps.
\<close>

definition uploaded :: "workflow \<Rightarrow> (string \<times> status) list \<Rightarrow> (string \<times> string) list" where
  "uploaded wfl sts =
     concat (map job_artifacts (filter (\<lambda>j. map_of sts (job_id j) = Some Success) (jobs wfl)))"

text \<open>
  A job publishes to the package index when one of its steps uses the publishing action
  \<^verbatim>\<open>pypa/gh-action-pypi-publish\<close>; a run publishes when such a job is started.
\<close>

definition is_publish :: "step \<Rightarrow> bool" where
  "is_publish s = (case act s of Uses a args \<Rightarrow> a = ''pypa/gh-action-pypi-publish@v1.10.2'' | Run ls \<Rightarrow> False)"

definition publishes :: "workflow \<Rightarrow> run \<Rightarrow> bool" where
  "publishes wfl r =
     (case run_workflow wfl r of
        None \<Rightarrow> False
      | Some sts \<Rightarrow> list_ex (\<lambda>j. list_ex is_publish (steps j) \<and> started sts (job_id j)) (jobs wfl))"

text \<open>
  The artifacts a job downloads and the credentials of its publishing step, as written
  in the \<^verbatim>\<open>with:\<close> blocks.
\<close>

definition step_download :: "step \<Rightarrow> (string \<times> string) list" where
  "step_download s =
     (case act s of
        Uses a args \<Rightarrow>
          (if a = ''actions/download-artifact@v4'' then
             (case (map_of args ''name'', map_of args ''path'') of
                (Some n, Some p) \<Rightarrow> [(render [] n, render [] p)]
              | _ \<Rightarrow> [])
           else [])
      | Run ls \<Rightarrow> [])"

definition job_downloads :: "job \<Rightarrow> (string \<times> string) list" where
  "job_downloads j = concat (map step_download (steps j))"

definition publish_credentials :: "job \<Rightarrow> (template option \<times> template option) list" where
  "publish_credentials j =
     concat (map (\<lambda>s. case act s of
                        Uses a args \<Rightarrow> (if is_publish s then [(map_of args ''user'', map_of args ''password'')] else [])
                      | Run ls \<Rightarrow> [])
                 (steps j))"

subsection \<open>What the build scripts build\<close>

text \<open>
  A line of a script whose first character other than a blank is \<^verbatim>\<open>#\<close> is a comment (as
  is an empty line); the other lines are the commands of the step.
\<close>

definition is_comment :: "string \<Rightarrow> bool" where
  "is_comment l = (case dropWhile (\<lambda>c. c = CHR '' '') l of [] \<Rightarrow> True | c # cs \<Rightarrow> c = CHR ''#'')"

definition commands :: "step \<Rightarrow> string list" where
  "commands s = (case act s of Uses a args \<Rightarrow> [] | Run ls \<Rightarrow> filter (\<lambda>l. \<not> is_comment l) ls)"

text \<open>The words of a line, separated by blanks (the selectors of \<^verbatim>\<open>CIBW_BUILD\<close>).\<close>

fun split_words :: "string \<Rightarrow> string \<Rightarrow> string list" where
  "split_words w [] = (if w = [] then [] else [w])"
| "split_words w (c # cs) =
     (if c = CHR '' '' then (if w = [] then split_words [] cs else w # split_words [] cs)
      else split_words (w @ [c]) cs)"

definition cibw_build :: "workflow \<Rightarrow> string list" where
  "cibw_build wfl = (case map_of (env wfl) ''CIBW_BUILD'' of None \<Rightarrow> [] | Some v \<Rightarrow> split_words [] v)"

text \<open>
  What a command builds. \<^verbatim>\<open>python -m cibuildwheel\<close> is the only reader of the
  \<^verbatim>\<open>CIBW_*\<close> variables: it builds one wheel for each selector of \<^verbatim>\<open>CIBW_BUILD\<close>, in the
  build image the environment names. \<^verbatim>\<open>python setup.py bdist_wheel\<close> and
  \<^verbatim>\<open>python setup.py sdist\<close> build one wheel, one source distribution, with the
  interpreter that is \<^verbatim>\<open>python\<close> at that point of the job, on the runner itself.
  Other commands build nothing.
\<close>

datatype product =
  Wheel_for_selector string
| Wheel_with_python "string option"
| Sdist_with_python "string option"

definition command_products :: "workflow \<Rightarrow> string option \<Rightarrow> string \<Rightarrow> product list" where
  "command_products wfl py cmd =
     (if take 3 (split_words [] cmd) = [''python'', ''-m'', ''cibuildwheel'']
        then map Wheel_for_selector (cibw_build wfl)
      else if split_words [] cmd = [''python'', ''setup.py'', ''bdist_wheel''] then [Wheel_with_python py]
      else if split_words [] cmd = [''python'', ''setup.py'', ''sdist''] then [Sdist_with_python py]
      else [])"

text \<open>
  The products of the steps of a job, in order; \<open>py\<close> is the interpreter selected by the
  last \<^verbatim>\<open>actions/setup-python\<close> step so far (\<open>None\<close>: the one the runner comes with).
\<close>

fun steps_products :: "workflow \<Rightarrow> string option \<Rightarrow> step list \<Rightarrow> product list" where
  "steps_products wfl py [] = []"
| "steps_products wfl py (s # ss) =
     (case act s of
        Uses a args \<Rightarrow>
          (if a = ''actions/setup-python@v5''
           then steps_products wfl (map_option (render []) (map_of args ''python-version'')) ss
           else steps_products wfl py ss)
      | Run ls \<Rightarrow> concat (map (command_products wfl py) (commands s)) @ steps_products wfl py ss)"

definition job_products :: "workflow \<Rightarrow> job \<Rightarrow> product list" where
  "job_products wfl j = steps_products wfl None (steps j)"

section \<open>The conditions and the training set-up of the tutorials\<close>

text \<open>
  The notebooks build their training problem by calls into the library. A call is kept
  as it is written: the callee and the keyword arguments, in order. The arguments that
  occur are names of notebook variables, numbers, truth values and lists.
\<close>

datatype arg = Name string | Num real | Truth bool | Items "arg list"

record call =
  callee :: string
  kwargs :: "(string \<times> arg) list"

text \<open>
  Step 5 of \<^verbatim>\<open>Introduction_Tutorial_PINNs.ipynb\<close>:
  \<^verbatim>\<open>
  pde_condition      = tp.conditions.PINNCondition(module     =model,
                                                   sampler    =sampler_pde_condition,
                                                   residual_fn=residual_pde_condition)
  initial_condition  = tp.conditions.PINNCondition(module     =model,
                                                   sampler    =sampler_initial_condition,
                                                   residual_fn=residual_initial_condition)
  boundary_condition = tp.conditions.PINNCondition(module     =model,
                                                   sampler    =sampler_boundary_condition,
                                                   residual_fn=residual_boundary_condition)
  \<close>
\<close>

definition pde_condition :: call where
  "pde_condition =
     \<lparr>callee = ''tp.conditions.PINNCondition'',
      kwargs = [(''module'', Name ''model''),
                (''sampler'', Name ''sampler_pde_condition''),
                (''residual_fn'', Name ''residual_pde_condition'')]\<rparr>"

definition initial_condition :: call where
  "initial_condition =
     \<lparr>callee = ''tp.conditions.PINNCondition'',
      kwargs = [(''module'', Name ''model''),
                (''sampler'', Name ''sampler_initial_condition''),
                (''residual_fn'', Name ''residual_initial_condition'')]\<rparr>"

definition boundary_condition :: call where
  "boundary_condition =
     \<lparr>callee = ''tp.conditions.PINNCondition'',
      kwargs = [(''module'', Name ''model''),
                (''sampler'', Name ''sampler_boundary_condition''),
                (''residual_fn'', Name ''residual_boundary_condition'')]\<rparr>"

text \<open>
  \<^verbatim>\<open>solve_pde_drm.ipynb\<close>:
  \<^verbatim>\<open>
  bound_cond = tp.conditions.DeepRitzCondition(module=model, sampler=bound_sampler,
                                               integrand_fn=bound_residual, weight=50)
  pde_cond = tp.conditions.DeepRitzCondition(module=model, sampler=pde_sampler,
                                             integrand_fn=energy_residual, weight=1.0)
  \<close>
\<close>

definition bound_cond :: call where
  "bound_cond =
     \<lparr>callee = ''tp.conditions.DeepRitzCondition'',
      kwargs = [(''module'', Name ''model''),
                (''sampler'', Name ''bound_sampler''),
                (''integrand_fn'', Name ''bound_residual''),
                (''weight'', Num 50)]\<rparr>"

definition pde_cond :: call where
  "pde_cond =
     \<lparr>callee = ''tp.conditions.DeepRitzCondition'',
      kwargs = [(''module'', Name ''model''),
                (''sampler'', Name ''pde_sampler''),
                (''integrand_fn'', Name ''energy_residual''),
                (''weight'', Num 1)]\<rparr>"

text \<open>Every condition that the tutorials construct, in the order of the notebooks.\<close>

definition tutorial_conditions :: "call list" where
  "tutorial_conditions = [pde_condition, initial_condition, boundary_condition, bound_cond, pde_cond]"

text \<open>
  \<^verbatim>\<open>
  training_conditions = [pde_condition, initial_condition, boundary_condition]
  optim = tp.OptimizerSetting(optimizer_class=torch.optim.Adam, lr=0.0005)
  solver = tp.solver.Solver(train_conditions=training_conditions, optimizer_setting=optim)
  \<close>
\<close>

definition training_conditions :: "call list" where
  "training_conditions = [pde_condition, initial_condition, boundary_condition]"

definition optim :: call where
  "optim =
     \<lparr>callee = ''tp.OptimizerSetting'',
      kwargs = [(''optimizer_class'', Name ''torch.optim.Adam''), (''lr'', Num (5 / 10000))]\<rparr>"

record solver_args =
  train_conditions :: "call list"
  optimizer_setting :: call

definition solver :: solver_args where
  "solver = \<lparr>train_conditions = training_conditions, optimizer_setting = optim\<rparr>"

text \<open>
  \<^verbatim>\<open>
  import pytorch_lightning as pl
  import os
  os.environ["CUDA_VISIBLE_DEVICES"] = "1" if torch.cuda.is_available() else "0"
  device = 1 if torch.cuda.is_available() else 0
  \<close>
  The answer of \<^verbatim>\<open>torch.cuda.is_available()\<close> is the parameter.
\<close>

definition cuda_visible_devices :: "bool \<Rightarrow> string" where
  "cuda_visible_devices cuda_is_available = (if cuda_is_available then ''1'' else ''0'')"

definition device :: "bool \<Rightarrow> int" where
  "device cuda_is_available = (if cuda_is_available then 1 else 0)"

text \<open>
  \<^verbatim>\<open>
  trainer = pl.Trainer(
      # gpus=device, # or None if CPU is used
      max_steps=5000, # number of training steps
      logger=False,
      benchmark=True,
      # checkpoint_callback=False  # Uncomment this for more verbose
  )
  \<close>
\<close>

definition trainer :: call where
  "trainer =
     \<lparr>callee = ''pl.Trainer'',
      kwargs = [(''max_steps'', Num 5000), (''logger'', Truth False), (''benchmark'', Truth True)]\<rparr>"

text \<open>
  The trainers of \<^verbatim>\<open>solve_pde_drm.ipynb\<close>, whose first cell sets
  \<^verbatim>\<open>os.environ["CUDA_VISIBLE_DEVICES"] = "1"\<close>:
  \<^verbatim>\<open>
  trainer = pl.Trainer(devices=1,
                      #  accelerator="gpu", # what to use to solve problem and how many devices
                       num_sanity_val_steps=0,
                       benchmark=True,
                       max_steps=2500, # number of training steps
                       logger=False,
                       enable_checkpointing=False)
  \<close>
  and, after the optimizer is changed to LBFGS, the same call with \<^verbatim>\<open>max_steps=1000\<close>.
\<close>

definition trainer_drm :: call where
  "trainer_drm =
     \<lparr>callee = ''pl.Trainer'',
      kwargs = [(''devices'', Num 1), (''num_sanity_val_steps'', Num 0), (''benchmark'', Truth True),
                (''max_steps'', Num 2500), (''logger'', Truth False),
                (''enable_checkpointing'', Truth False)]\<rparr>"

definition trainer_drm_lbfgs :: call where
  "trainer_drm_lbfgs =
     \<lparr>callee = ''pl.Trainer'',
      kwargs = [(''devices'', Num 1), (''num_sanity_val_steps'', Num 0), (''benchmark'', Truth True),
                (''max_steps'', Num 1000), (''logger'', Truth False),
                (''enable_checkpointing'', Truth False)]\<rparr>"

text \<open>Every trainer that the supplied notebooks construct.\<close>

definition supplied_trainers :: "call list" where
  "supplied_trainers = [trainer, trainer_drm, trainer_drm_lbfgs]"

subsection \<open>The imports and the calls of the notebooks\<close>

text \<open>
  The supplied notebooks are \<^verbatim>\<open>Introduction_Tutorial_PINNs.ipynb\<close>,
  \<^verbatim>\<open>polygons_external_objects.ipynb\<close>, \<^verbatim>\<open>solve_pde_drm.ipynb\<close> and the notebook on
  domains that follows it in the same file. Their code cells consist of imports,
  assignments, function definitions and expression statements, run one cell after the
  other. An import is kept as the path of what is imported and the name it binds:
  \<^verbatim>\<open>import torchphysics as tp\<close>, \<^verbatim>\<open>from matplotlib import pyplot as plt\<close>,
  \<^verbatim>\<open>import os\<close>.
\<close>

definition pinn_imports :: "(string \<times> string) list" where
  "pinn_imports =
     [(''torchphysics'', ''tp''), (''numpy'', ''np''), (''torch'', ''torch''),
      (''matplotlib.pyplot'', ''plt''), (''pytorch_lightning'', ''pl''), (''os'', ''os'')]"

definition polygons_imports :: "(string \<times> string) list" where
  "polygons_imports =
     [(''torchphysics'', ''tp''),
      (''torchphysics.problem.domains.domain2D.shapely_polygon.ShapelyPolygon'', ''ShapelyPolygon''),
      (''torchphysics.problem.domains.domain3D.trimesh_polyhedron.TrimeshPolyhedron'',
       ''TrimeshPolyhedron'')]"

definition drm_imports :: "(string \<times> string) list" where
  "drm_imports =
     [(''os'', ''os''), (''torchphysics'', ''tp''), (''torch'', ''torch''), (''numpy'', ''np''),
      (''pytorch_lightning'', ''pl'')]"

definition domains_imports :: "(string \<times> string) list" where
  "domains_imports = [(''torchphysics'', ''tp'')]"

definition supplied_imports :: "(string \<times> string) list" where
  "supplied_imports = pinn_imports @ polygons_imports @ drm_imports @ domains_imports"

text \<open>The functions that the notebooks define with \<^verbatim>\<open>def\<close>.\<close>

definition supplied_functions :: "string list" where
  "supplied_functions =
     [''h'', ''residual_pde_condition'', ''residual_initial_condition'',
      ''residual_dirichlet_condition'', ''residual_neumann_condition'',
      ''residual_boundary_condition'', ''bound_residual'', ''energy_residual'', ''plot_fn'']"

text \<open>
  The callees of all calls in the code cells of each notebook, the bodies of the defined
  functions included, each callee once. A callee is the expression that is called, as
  written: \<^verbatim>\<open>tp.spaces.R2\<close>, \<^verbatim>\<open>trainer.fit\<close>, \<^verbatim>\<open>print\<close>.
\<close>

definition pinn_callees :: "string list" where
  "pinn_callees =
     [''np.linspace'', ''plt.plot'', ''plt.show'', ''h'', ''tp.spaces.R2'',
      ''tp.spaces.R1'', ''tp.domains.Parallelogram'', ''tp.domains.Interval'',
      ''tp.samplers.RandomUniformSampler'', ''tp.utils.scatter'',
      ''tp.samplers.GridSampler'', ''tp.utils.laplacian'', ''tp.utils.grad'',
      ''Omega.boundary.normal'', ''tp.utils.normal_derivative'',
      ''residual_neumann_condition'', ''residual_dirichlet_condition'',
      ''tp.models.NormalizationLayer'', ''tp.models.FCN'', ''tp.models.Sequential'',
      ''tp.conditions.PINNCondition'', ''print'', ''torch.cuda.is_available'', ''str'',
      ''tp.OptimizerSetting'', ''tp.solver.Solver'', ''pl.Trainer'', ''trainer.fit'',
      ''tp.samplers.PlotSampler'', ''tp.utils.plot'', ''torch.linspace'',
      ''torch.meshgrid'', ''torch.stack'', ''xs.flatten'', ''ys.flatten'', ''ts.flatten'',
      ''tp.spaces.Points'', ''model.forward'',
      ''output.as_tensor.reshape(100, 80, 1).detach().numpy'',
      ''output.as_tensor.reshape(100, 80, 1).detach'', ''output.as_tensor.reshape'',
      ''plt.imshow'', ''np.rot90'']"

definition polygons_callees :: "string list" where
  "polygons_callees =
     [''tp.spaces.R2'', ''ShapelyPolygon'', ''tp.utils.scatter'',
      ''tp.samplers.GridSampler'', ''tp.spaces.R3'', ''TrimeshPolyhedron'',
      ''P.slice_with_plane'', ''tp.samplers.RandomUniformSampler'']"

definition drm_callees :: "string list" where
  "drm_callees =
     [''tp.spaces.R2'', ''tp.spaces.R1'', ''tp.domains.Parallelogram'',
      ''tp.models.DeepRitzNet'', ''tp.samplers.RandomUniformSampler'', ''torch.sin'',
      ''torch.cos'', ''tp.conditions.DeepRitzCondition'', ''pde_sampler.make_static'',
      ''torch.sum'', ''tp.utils.grad'', ''tp.OptimizerSetting'', ''tp.solver.Solver'',
      ''pl.Trainer'', ''trainer.fit'', ''bound_cond.sampler.make_static'',
      ''pde_cond.sampler.make_static'', ''tp.samplers.PlotSampler'', ''tp.utils.plot'',
      ''torch.abs'']"

definition domains_callees :: "string list" where
  "domains_callees =
     [''tp.spaces.R1'', ''tp.domains.Interval'', ''tp.spaces.R2'',
      ''tp.domains.Parallelogram'', ''tp.domains.Circle'', ''tp.utils.scatter'',
      ''tp.samplers.GridSampler'']"

definition supplied_callees :: "string list" where
  "supplied_callees = pinn_callees @ polygons_callees @ drm_callees @ domains_callees"

text \<open>
  The variables on which the notebooks call methods. Each is assigned from a call into a
  library: \<^verbatim>\<open>Omega = tp.domains.Parallelogram(...)\<close>, \<^verbatim>\<open>trainer = pl.Trainer(...)\<close>,
  \<^verbatim>\<open>xs, ys, ts = torch.meshgrid(...)\<close>, \<^verbatim>\<open>model = tp.models.Sequential(...)\<close>,
  \<^verbatim>\<open>output = model.forward(...)\<close>, \<^verbatim>\<open>P = ShapelyPolygon(...)\<close>,
  \<^verbatim>\<open>pde_sampler = tp.samplers.RandomUniformSampler(...)\<close>,
  \<^verbatim>\<open>bound_cond\<close> and \<^verbatim>\<open>pde_cond = tp.conditions.DeepRitzCondition(...)\<close>.
\<close>

definition library_objects :: "string list" where
  "library_objects =
     [''Omega'', ''trainer'', ''xs'', ''ys'', ''ts'', ''model'', ''output'', ''P'', ''pde_sampler'',
      ''bound_cond'', ''pde_cond'']"

text \<open>The name a callee starts with, and its components between the dots.\<close>

definition head_name :: "string \<Rightarrow> string" where
  "head_name c = takeWhile (\<lambda>ch. ch \<noteq> CHR ''.'') c"

fun split_dots :: "string \<Rightarrow> string \<Rightarrow> string list" where
  "split_dots w [] = [w]"
| "split_dots w (c # cs) = (if c = CHR ''.'' then w # split_dots [] cs else split_dots (w @ [c]) cs)"

definition components :: "string \<Rightarrow> string list" where
  "components c = split_dots [] c"

subsection \<open>Conditions and the training objective\<close>

text \<open>
  Modelled from the spec: the classes \<^verbatim>\<open>PINNCondition\<close> and \<^verbatim>\<open>DeepRitzCondition\<close> of
  the library, whose code is not among the sources. By the glossary a condition is
  ``a pairing of a sampler, a model, and a residual function defining one training loss
  term'': the constructor needs the model (\<^verbatim>\<open>module\<close>), the \<^verbatim>\<open>sampler\<close> and the
  function (\<^verbatim>\<open>residual_fn\<close> for a PINN condition, \<^verbatim>\<open>integrand_fn\<close> for a Deep Ritz
  condition), each given by name, and takes an optional \<^verbatim>\<open>weight\<close> (1 when absent).
\<close>

record condition =
  module :: string
  sampler :: string
  residual_fn :: string
  weight :: real

definition make_condition :: "string \<Rightarrow> (string \<times> arg) list \<Rightarrow> condition option" where
  "make_condition fn_key kw =
     (case (map_of kw ''module'', map_of kw ''sampler'', map_of kw fn_key) of
        (Some (Name m), Some (Name s), Some (Name f)) \<Rightarrow>
          Some \<lparr>module = m, sampler = s, residual_fn = f,
                weight = (case map_of kw ''weight'' of Some (Num v) \<Rightarrow> v | _ \<Rightarrow> 1)\<rparr>
      | _ \<Rightarrow> None)"

definition construct_condition :: "call \<Rightarrow> condition option" where
  "construct_condition c =
     (if callee c = ''tp.conditions.PINNCondition'' then make_condition ''residual_fn'' (kwargs c)
      else if callee c = ''tp.conditions.DeepRitzCondition'' then make_condition ''integrand_fn'' (kwargs c)
      else None)"

text \<open>
  Modelled from the spec: the loss of a condition and the objective of the library's
  \<^verbatim>\<open>Solver\<close>, whose code is not among the sources. A condition defines one loss term:
  the loss of its function, applied to its model, at the points its sampler produces,
  with its weight. A model is ``trained by minimizing'' these losses ``evaluated at
  sampled points'': the objective of a solver is the sum of the loss terms of its
  training conditions. \<open>objective\<close> lists the summands; \<open>objective_value\<close> adds up their
  values under a valuation of the terms.
\<close>

datatype loss_term = Loss string string string real

definition loss_terms :: "condition \<Rightarrow> loss_term list" where
  "loss_terms c = [Loss (residual_fn c) (module c) (sampler c) (weight c)]"

fun construct_all :: "call list \<Rightarrow> condition list option" where
  "construct_all [] = Some []"
| "construct_all (c # cs) =
     (case construct_condition c of
        None \<Rightarrow> None
      | Some x \<Rightarrow> (case construct_all cs of None \<Rightarrow> None | Some xs \<Rightarrow> Some (x # xs)))"

definition objective :: "solver_args \<Rightarrow> loss_term list option" where
  "objective s = map_option (\<lambda>cs. concat (map loss_terms cs)) (construct_all (train_conditions s))"

definition objective_value :: "(loss_term \<Rightarrow> real) \<Rightarrow> solver_args \<Rightarrow> real option" where
  "objective_value v s = map_option (\<lambda>ts. sum_list (map v ts)) (objective s)"

text \<open>How often a keyword occurs among the arguments of a call.\<close>

definition count_key :: "string \<Rightarrow> call \<Rightarrow> nat" where
  "count_key k c = length (filter (\<lambda>kv. fst kv = k) (kwargs c))"

section \<open>Properties of the heater temperature function\<close>

lemma h_map: "h t = map (\<lambda>ti. if ti > 5 then 40 else 16 + 24 / 5 * ti) t"
  by (simp add: h_def affine_def gt_scalar_def setitem_mask_def u_0_def u_heater_max_def
      t_heater_max_def zip_map1 zip_map2 zip_same_conv_map)

lemma h_length: "length (h t) = length t"
  by (simp add: h_map)

lemma h_nth: "i < length t \<Longrightarrow> h t ! i = (if t ! i > 5 then 40 else 16 + 24 / 5 * t ! i)"
  by (simp add: h_map)

lemma h_nth_min: "i < length t \<Longrightarrow> h t ! i = min (16 + 24 / 5 * t ! i) 40"
  by (simp add: h_nth min_def)

lemma h_single: "h [s] ! 0 = min (16 + 24 / 5 * s) 40"
  using h_nth_min [of 0 "[s]"] by simp

lemma h_pointwise: "i < length t \<Longrightarrow> h t ! i = h [t ! i] ! 0"
  by (simp add: h_nth_min h_single)

text \<open>
  Claim C6. For every array \<open>t\<close> of reals, \<open>h t\<close> has the shape of \<open>t\<close> and its \<open>i\<close>-th entry
  is \<open>min (u_0 + (u_heater_max - u_0) / t_heater_max * t\<^sub>i) u_heater_max\<close>, which is
  \<open>min (16 + 24/5 * t\<^sub>i) 40\<close>. Hence \<open>h\<close> is monotone entry by entry, every entry is at most
  40, the entry at \<open>t\<^sub>i = 5\<close> is 40, and as a function of one entry \<open>h\<close> is continuous at 5.
\<close>

theorem h_entries:
  "length (h t) = length t
   \<and> (\<forall>i<length t. h t ! i = min (u_0 + (u_heater_max - u_0) / t_heater_max * t ! i) u_heater_max
        \<and> h t ! i = min (16 + 24 / 5 * t ! i) 40
        \<and> h t ! i \<le> 40
        \<and> (t ! i = 5 \<longrightarrow> h t ! i = 40))
   \<and> (\<forall>i<length t. \<forall>j<length t. t ! i \<le> t ! j \<longrightarrow> h t ! i \<le> h t ! j)
   \<and> h [5] = [40]
   \<and> isCont (\<lambda>s. h [s] ! 0) 5"
proof -
  have entries: "\<forall>i<length t. h t ! i = min (u_0 + (u_heater_max - u_0) / t_heater_max * t ! i) u_heater_max
        \<and> h t ! i = min (16 + 24 / 5 * t ! i) 40
        \<and> h t ! i \<le> 40
        \<and> (t ! i = 5 \<longrightarrow> h t ! i = 40)"
    by (simp add: h_nth_min u_0_def u_heater_max_def t_heater_max_def)
  have mono: "\<forall>i<length t. \<forall>j<length t. t ! i \<le> t ! j \<longrightarrow> h t ! i \<le> h t ! j"
    by (simp add: h_nth_min min_def)
  have at5: "h [5] = [40]"
    by (simp add: h_map)
  have "(\<lambda>s. h [s] ! 0) = (\<lambda>s. min (16 + 24 / 5 * s) 40)"
    by (simp add: h_single)
  moreover have "isCont (\<lambda>s::real. min (16 + 24 / 5 * s) 40) 5"
    by (intro continuous_intros)
  ultimately have cont: "isCont (\<lambda>s. h [s] ! 0) 5"
    by simp
  show ?thesis
    using h_length entries mono at5 cont by blast
qed

theorem h_entries_witness:
  "h [0, 5, 10] ! 0 = 16 \<and> h [0, 5, 10] ! 1 = 40 \<and> h [0, 5, 10] ! 2 = 40
   \<and> h [0, 5, 10] ! 0 \<le> h [0, 5, 10] ! 2"
proof -
  let ?t = "[0, 5, 10] :: ndarray"
  have e: "\<forall>i<length ?t. h ?t ! i = min (16 + 24 / 5 * ?t ! i) 40"
    using h_entries [of ?t] by blast
  have m: "\<forall>i<length ?t. \<forall>j<length ?t. ?t ! i \<le> ?t ! j \<longrightarrow> h ?t ! i \<le> h ?t ! j"
    using h_entries [of ?t] by blast
  have "h ?t ! 0 = 16" "h ?t ! 1 = 40" "h ?t ! 2 = 40"
    using e [rule_format, of 0] e [rule_format, of 1] e [rule_format, of 2] by simp_all
  moreover have "h ?t ! 0 \<le> h ?t ! 2"
    using m [rule_format, of 0 2] by simp
  ultimately show ?thesis
    by simp
qed

text \<open>
  Claim C7. Calling \<open>h\<close> on the array at address \<open>t\<close> returns a fresh address \<open>r\<close> that holds
  \<open>h\<close> of the argument, and every array that was in the store before the call, the
  argument among them, still holds its original entries: the masked assignment wrote to
  the new array only.
\<close>

theorem h_store_frame:
  "t < length s \<Longrightarrow>
   \<exists>r s'. h_store t s = Some (r, s') \<and> r = length s \<and> length s' = Suc (length s)
        \<and> s' ! t = s ! t \<and> (\<forall>p<length s. s' ! p = s ! p) \<and> s' ! r = h (s ! t)"
  by (simp add: h_store_def alloc_def setitem_mask_at_def h_def nth_append)

theorem h_store_frame_witness:
  "\<exists>r s'. h_store 1 [[1, 2], [0, 5, 10]] = Some (r, s') \<and> r = 2
        \<and> s' ! 0 = [1, 2] \<and> s' ! 1 = [0, 5, 10] \<and> s' ! r = [16, 40, 40]"
proof -
  let ?s = "[[1, 2], [0, 5, 10]] :: store"
  have "(1::nat) < length ?s"
    by simp
  from h_store_frame [OF this] obtain r s' where
    r: "h_store 1 ?s = Some (r, s')" "r = length ?s"
      "\<forall>p<length ?s. s' ! p = ?s ! p" "s' ! r = h (?s ! 1)"
    by blast
  have "s' ! 0 = [1, 2]" "s' ! 1 = [0, 5, 10]"
    using r(3) [rule_format, of 0] r(3) [rule_format, of 1] by simp_all
  moreover have "s' ! r = [16, 40, 40]"
    using r(4) by (simp add: h_map)
  moreover have "r = 2"
    using r(2) by simp
  ultimately show ?thesis
    using r(1) by blast
qed

section \<open>Properties of the combined boundary residual\<close>


lemma heater_location_map:
  "heater_location x = map (\<lambda>p. 1 \<le> fst p \<and> fst p \<le> 3 \<and> 399 / 100 \<le> snd p) x"
  by (simp add: heater_location_def mask_and_def ge_scalar_def le_scalar_def col0_def col1_def
      zip_map1 zip_map2 zip_same_conv_map)

lemma select_length:
  "length msk = length b \<Longrightarrow> length (map snd (filter fst (zip msk b))) = length (filter id msk)"
  by (induction msk b rule: list_induct2) simp_all

lemma scatter_rows_select:
  "length msk = length a \<Longrightarrow> length a = length b \<Longrightarrow>
   scatter_rows msk a (map snd (filter fst (zip msk b)))
     = map (\<lambda>(m, ai, bi). if m then bi else ai) (zip msk (zip a b))"
proof (induction msk a b rule: list_induct3)
  case Nil
  then show ?case by simp
next
  case (Cons m ms a as b bs)
  then show ?case
    by (cases "map snd (filter fst (zip ms bs))") auto
qed

lemma residual_boundary_condition_rows:
  assumes "length u = length x" and "length t = length x"
    and "length (residual_neumann_condition N D u x) = length x"
  shows "residual_boundary_condition N D u x t =
     Inr (map (\<lambda>(m, ri, di). if m then di else ri)
       (zip (heater_location x) (zip (residual_neumann_condition N D u x)
          (map (\<lambda>(ui, hi). ui - hi) (zip u (h t))))))"
proof -
  let ?m = "heater_location x"
  let ?r = "residual_neumann_condition N D u x"
  let ?d = "map (\<lambda>(ui, hi). ui - hi) (zip u (h t))"
  let ?rows = "map snd (filter fst (zip ?m ?d))"
  have lm: "length ?m = length x"
    by (simp add: heater_location_map)
  have ld: "length ?d = length x"
    using assms by (simp add: h_length)
  have d: "residual_dirichlet_condition u t = Inr ?d"
    using assms by (simp add: residual_dirichlet_condition_def sub_tensor_def h_length)
  have g: "getitem_mask ?m ?d = Inr ?rows"
    using lm ld by (simp add: getitem_mask_def)
  have "length ?rows = length (filter id ?m)"
    using lm ld by (intro select_length) simp
  then have s: "setitem_mask_rows ?m ?rows ?r = Inr (scatter_rows ?m ?r ?rows)"
    using lm assms(3) by (simp add: setitem_mask_rows_def)
  have "scatter_rows ?m ?r ?rows = map (\<lambda>(m, ri, di). if m then di else ri) (zip ?m (zip ?r ?d))"
    using lm ld assms(3) by (intro scatter_rows_select) simp_all
  with d g s show ?thesis
    by (simp add: residual_boundary_condition_def)
qed

text \<open>
  Claim C5. For a batch of \<open>n\<close> boundary points (\<open>u\<close>, \<open>x\<close>, \<open>t\<close> with \<open>n\<close> rows each, the
  normal derivative having \<open>n\<close> rows), \<open>residual_boundary_condition\<close> returns a residual of
  \<open>n\<close> rows whose \<open>i\<close>-th row is the Dirichlet residual \<open>u\<^sub>i - h(t\<^sub>i)\<close> when \<open>x\<^sub>i\<close> lies in
  the heater strip (\<open>1 \<le> x\<^sub>i[0] \<le> 3\<close> and \<open>x\<^sub>i[1] \<ge> 3.99\<close>), and otherwise the \<open>i\<close>-th row of
  the Neumann residual, which is the normal derivative of \<open>u\<close> at \<open>x\<close> along the normal
  vectors of the boundary at \<open>x\<close>. No other row of the Neumann residual is altered.
\<close>

theorem residual_boundary_condition_by_row:
  assumes "length u = length x" and "length t = length x"
    and "length (normal_derivative u (normal x) x) = length x"
  shows "residual_neumann_condition normal normal_derivative u x = normal_derivative u (normal x) x
     \<and> (\<exists>r. residual_boundary_condition normal normal_derivative u x t = Inr r
          \<and> length r = length x
          \<and> (\<forall>i<length x. r ! i =
               (if 1 \<le> fst (x ! i) \<and> fst (x ! i) \<le> 3 \<and> 399 / 100 \<le> snd (x ! i)
                then u ! i - h [t ! i] ! 0
                else normal_derivative u (normal x) x ! i)))"
proof -
  have nd: "residual_neumann_condition normal normal_derivative u x = normal_derivative u (normal x) x"
    by (simp add: residual_neumann_condition_def)
  let ?r = "map (\<lambda>(m, ri, di). if m then di else ri)
       (zip (heater_location x) (zip (normal_derivative u (normal x) x)
          (map (\<lambda>(ui, hi). ui - hi) (zip u (h t)))))"
  have "residual_boundary_condition normal normal_derivative u x t = Inr ?r"
    using assms residual_boundary_condition_rows [of u x t normal normal_derivative]
    by (simp add: nd)
  moreover have "length ?r = length x"
    using assms by (simp add: heater_location_map h_length)
  moreover have "\<forall>i<length x. ?r ! i =
          (if 1 \<le> fst (x ! i) \<and> fst (x ! i) \<le> 3 \<and> 399 / 100 \<le> snd (x ! i)
           then u ! i - h [t ! i] ! 0
           else normal_derivative u (normal x) x ! i)"
    using assms by (simp add: heater_location_map h_length h_pointwise [symmetric])
  ultimately show ?thesis
    using nd by blast
qed

text \<open>
  The witness takes a boundary whose normal at \<open>(a, b)\<close> is \<open>(a + 1, 0)\<close> and a normal
  derivative that multiplies the first component of the normal by \<open>u\<close>: the row outside
  the heater strip, at \<open>(0, 2)\<close> with \<open>u = 30\<close>, is \<open>(0 + 1) * 30 = 30\<close>, a value that
  depends on the normal vectors.
\<close>

theorem residual_boundary_condition_by_row_witness:
  "residual_boundary_condition
      (\<lambda>x. map (\<lambda>p. (fst p + 1, 0)) x)
      (\<lambda>u n x. map (\<lambda>(ui, ni). fst ni * ui) (zip u n))
      [20, 30, 50] [(2, 4), (0, 2), (3, 399 / 100)] [0, 1, 10] = Inr [4, 30, 10]"
proof -
  let ?N = "\<lambda>x::points. map (\<lambda>p. (fst p + 1, 0::real)) x"
  let ?D = "\<lambda>(u::ndarray) (n::points) (x::points). map (\<lambda>(ui, ni). fst ni * ui) (zip u n)"
  let ?u = "[20, 30, 50] :: ndarray"
  let ?x = "[(2, 4), (0, 2), (3, 399 / 100)] :: points"
  let ?t = "[0, 1, 10] :: ndarray"
  have "length ?u = length ?x" "length ?t = length ?x"
    "length (?D ?u (?N ?x) ?x) = length ?x"
    by simp_all
  from residual_boundary_condition_by_row [of ?u ?x ?t ?D ?N, OF this] obtain r where
    r: "residual_boundary_condition ?N ?D ?u ?x ?t = Inr r" "length r = length ?x"
      "\<forall>i<length ?x. r ! i =
          (if 1 \<le> fst (?x ! i) \<and> fst (?x ! i) \<le> 3 \<and> 399 / 100 \<le> snd (?x ! i)
           then ?u ! i - h [?t ! i] ! 0
           else ?D ?u (?N ?x) ?x ! i)"
    by blast
  have "r ! 0 = 4" "r ! 1 = 30" "r ! 2 = 10"
    using r(3) [rule_format, of 0] r(3) [rule_format, of 1] r(3) [rule_format, of 2]
    by (simp_all add: h_map)
  moreover have "length r = 3"
    using r(2) by simp
  ultimately have "r = [4, 30, 10]"
    by (simp add: list_eq_iff_nth_eq less_Suc_eq numeral_3_eq_3 numeral_2_eq_2)
  with r(1) show ?thesis
    by simp
qed

section \<open>Properties of the packaging workflow\<close>

lemmas workflow_defs = packaging_workflow_def build_wheels_def build_sdist_def upload_pypi_def

lemma triggered_iff:
  "triggered packaging_workflow ev \<longleftrightarrow>
     event_name ev = ''workflow_dispatch''
     \<or> (event_name ev = ''release'' \<and> event_action ev = Some ''published'')"
  by (auto simp add: triggered_def packaging_workflow_def split: option.splits)

text \<open>The statuses of the three jobs, for any event and any set of failing jobs.\<close>

lemma statuses:
  "job_statuses r (jobs packaging_workflow) [] =
     [(''build_wheels'', if ''build_wheels'' \<in> set (failing r) then Failure else Success),
      (''build_sdist'', if ''build_sdist'' \<in> set (failing r) then Failure else Success),
      (''upload_pypi'',
         if ''build_wheels'' \<notin> set (failing r) \<and> ''build_sdist'' \<notin> set (failing r)
            \<and> event_name (trigger_event r) = ''release''
            \<and> event_action (trigger_event r) = Some ''published''
         then (if ''upload_pypi'' \<in> set (failing r) then Failure else Success)
         else Skipped)]"
  by (simp add: workflow_defs job_status_def)

lemma publish_jobs:
  "list_ex is_publish (steps build_wheels) = False"
  "list_ex is_publish (steps build_sdist) = False"
  "list_ex is_publish (steps upload_pypi) = True"
  by (simp_all add: workflow_defs is_publish_def)

lemma publishes_iff:
  "publishes packaging_workflow r \<longleftrightarrow>
     event_name (trigger_event r) = ''release'' \<and> event_action (trigger_event r) = Some ''published''
     \<and> ''build_wheels'' \<notin> set (failing r) \<and> ''build_sdist'' \<notin> set (failing r)"
  apply (simp add: publishes_def run_workflow_def triggered_iff statuses)
  apply (simp add: packaging_workflow_def publish_jobs started_def)
  apply (simp add: workflow_defs)
  by auto

lemma artifacts:
  "job_artifacts build_wheels = [(''artifact-wheel-ubuntu-latest'', ''./dist/*.whl'')]"
  "job_artifacts build_sdist = [(''artifact-sdist'', ''dist/*.tar.gz'')]"
  "job_artifacts upload_pypi = []"
  "job_artifacts (build_wheels\<lparr>matrix_os := [os]\<rparr>) = [(''artifact-wheel-'' @ os, ''./dist/*.whl'')]"
  by (simp_all add: workflow_defs job_artifacts_def instances_def step_artifact_def render_def)

lemma uploaded_by_status:
  "uploaded packaging_workflow (job_statuses r (jobs packaging_workflow) []) =
     (if ''build_wheels'' \<in> set (failing r) then [] else [(''artifact-wheel-ubuntu-latest'', ''./dist/*.whl'')])
     @ (if ''build_sdist'' \<in> set (failing r) then [] else [(''artifact-sdist'', ''dist/*.tar.gz'')])"
proof -
  have ids: "job_id build_wheels = ''build_wheels''" "job_id build_sdist = ''build_sdist''"
    "job_id upload_pypi = ''upload_pypi''"
    by (simp_all add: workflow_defs)
  have js: "jobs packaging_workflow = [build_wheels, build_sdist, upload_pypi]"
    by (simp add: packaging_workflow_def)
  show ?thesis
    unfolding uploaded_def statuses
    by (simp add: js ids artifacts)
qed

lemma products:
  "job_products packaging_workflow build_wheels = [Wheel_with_python (Some ''3.10'')]"
  "job_products packaging_workflow build_sdist = [Sdist_with_python (Some ''3.10'')]"
  "cibw_build packaging_workflow = [''cp37-*'', ''cp38-*'', ''cp39-*'', ''cp310-*'']"
  by (simp_all add: workflow_defs job_products_def commands_def is_comment_def command_products_def
      cibw_build_def render_def)

text \<open>
  Claim C1, as stated, fails: \<^verbatim>\<open>cp37-*\<close> is one of the configured selectors of
  \<^verbatim>\<open>CIBW_BUILD\<close>, but the wheel job builds no wheel for it, neither through
  \<^verbatim>\<open>cibuildwheel\<close> (its two invocations are commented out) nor with a 3.7 interpreter.
\<close>

theorem wheel_per_version_counterexample:
  "''cp37-*'' \<in> set (cibw_build packaging_workflow)
   \<and> Wheel_for_selector ''cp37-*'' \<notin> set (job_products packaging_workflow build_wheels)
   \<and> Wheel_with_python (Some ''3.7'') \<notin> set (job_products packaging_workflow build_wheels)"
  by (simp add: products)

text \<open>
  Claim C1, amended. The wheel job builds one wheel, with the one interpreter it installs
  (CPython 3.10), on the Linux runner \<^verbatim>\<open>ubuntu-latest\<close>; the sdist job builds the source
  distribution, with the same interpreter version, on \<^verbatim>\<open>ubuntu-latest\<close>. The set
  \<^verbatim>\<open>cp37-* cp38-* cp39-* cp310-*\<close> is configured in the environment, and no command of
  the workflow reads it.
\<close>

theorem wheel_job_builds_one_wheel:
  "job_products packaging_workflow build_wheels = [Wheel_with_python (Some ''3.10'')]
   \<and> runs_on build_wheels = [''ubuntu-latest'']
   \<and> job_products packaging_workflow build_sdist = [Sdist_with_python (Some ''3.10'')]
   \<and> runs_on build_sdist = [''ubuntu-latest'']
   \<and> job_products packaging_workflow upload_pypi = []
   \<and> cibw_build packaging_workflow = [''cp37-*'', ''cp38-*'', ''cp39-*'', ''cp310-*'']
   \<and> concat (map commands (concat (map steps (jobs packaging_workflow)))) =
       [''pip install -U setuptools setuptools_scm wheel'', ''python setup.py bdist_wheel'',
        ''pip install -U setuptools setuptools_scm wheel'', ''python setup.py sdist'']"
  by (simp add: products)
    (simp add: workflow_defs job_products_def commands_def is_comment_def)

text \<open>
  Claim C2, as stated, fails: in the run of a published release in which the wheel job
  fails, the event is a release with action \<^verbatim>\<open>published\<close> and nothing is published,
  because the publish job needs both build jobs.
\<close>

theorem publish_iff_release_counterexample:
  "run_workflow packaging_workflow
     \<lparr>trigger_event = \<lparr>event_name = ''release'', event_action = Some ''published''\<rparr>,
      failing = [''build_wheels'']\<rparr>
     = Some [(''build_wheels'', Failure), (''build_sdist'', Success), (''upload_pypi'', Skipped)]
   \<and> \<not> publishes packaging_workflow
     \<lparr>trigger_event = \<lparr>event_name = ''release'', event_action = Some ''published''\<rparr>,
      failing = [''build_wheels'']\<rparr>"
  by (simp add: publishes_iff run_workflow_def triggered_iff statuses)

text \<open>
  Claim C2, amended. For every run, the publish job is started if and only if the event
  is a release with action \<^verbatim>\<open>published\<close> and both build jobs have succeeded; so nothing
  is ever published unless the event is a published release. A manually dispatched run
  starts both build jobs, uploads the artifacts of those that succeed, and publishes
  nothing. What is published is what the job downloads into \<^verbatim>\<open>dist\<close>, the sdist and the
  Linux wheel, with the user \<^verbatim>\<open>__token__\<close> and the stored secret as password.
\<close>

theorem publish_gate:
  "(publishes packaging_workflow r \<longleftrightarrow>
      event_name (trigger_event r) = ''release'' \<and> event_action (trigger_event r) = Some ''published''
      \<and> ''build_wheels'' \<notin> set (failing r) \<and> ''build_sdist'' \<notin> set (failing r))
   \<and> (publishes packaging_workflow r \<longrightarrow>
      event_name (trigger_event r) = ''release'' \<and> event_action (trigger_event r) = Some ''published'')
   \<and> (event_name (trigger_event r) = ''workflow_dispatch'' \<longrightarrow>
      \<not> publishes packaging_workflow r
      \<and> (\<exists>sts. run_workflow packaging_workflow r = Some sts
           \<and> started sts ''build_wheels'' \<and> started sts ''build_sdist''
           \<and> uploaded packaging_workflow sts =
               (if ''build_wheels'' \<in> set (failing r) then []
                else [(''artifact-wheel-ubuntu-latest'', ''./dist/*.whl'')])
               @ (if ''build_sdist'' \<in> set (failing r) then []
                  else [(''artifact-sdist'', ''dist/*.tar.gz'')])))
   \<and> job_downloads upload_pypi =
       [(''artifact-sdist'', ''dist''), (''artifact-wheel-ubuntu-latest'', ''dist'')]
   \<and> publish_credentials upload_pypi =
       [(Some [Lit ''__token__''], Some [Expr ''secrets.upload_pypi''])]"
proof -
  have dispatch: "event_name (trigger_event r) = ''workflow_dispatch'' \<longrightarrow>
      \<not> publishes packaging_workflow r
      \<and> (\<exists>sts. run_workflow packaging_workflow r = Some sts
           \<and> started sts ''build_wheels'' \<and> started sts ''build_sdist''
           \<and> uploaded packaging_workflow sts =
               (if ''build_wheels'' \<in> set (failing r) then []
                else [(''artifact-wheel-ubuntu-latest'', ''./dist/*.whl'')])
               @ (if ''build_sdist'' \<in> set (failing r) then []
                  else [(''artifact-sdist'', ''dist/*.tar.gz'')]))"
  proof
    assume d: "event_name (trigger_event r) = ''workflow_dispatch''"
    then have "\<not> publishes packaging_workflow r"
      by (simp add: publishes_iff)
    moreover have "run_workflow packaging_workflow r = Some (job_statuses r (jobs packaging_workflow) [])"
      using d by (simp add: run_workflow_def triggered_iff)
    moreover have "started (job_statuses r (jobs packaging_workflow) []) ''build_wheels''"
      "started (job_statuses r (jobs packaging_workflow) []) ''build_sdist''"
      by (simp_all add: statuses started_def)
    ultimately show "\<not> publishes packaging_workflow r
      \<and> (\<exists>sts. run_workflow packaging_workflow r = Some sts
           \<and> started sts ''build_wheels'' \<and> started sts ''build_sdist''
           \<and> uploaded packaging_workflow sts =
               (if ''build_wheels'' \<in> set (failing r) then []
                else [(''artifact-wheel-ubuntu-latest'', ''./dist/*.whl'')])
               @ (if ''build_sdist'' \<in> set (failing r) then []
                  else [(''artifact-sdist'', ''dist/*.tar.gz'')]))"
      using uploaded_by_status [of r] by blast
  qed
  have static: "job_downloads upload_pypi =
       [(''artifact-sdist'', ''dist''), (''artifact-wheel-ubuntu-latest'', ''dist'')]"
    "publish_credentials upload_pypi =
       [(Some [Lit ''__token__''], Some [Expr ''secrets.upload_pypi''])]"
    by (simp_all add: upload_pypi_def job_downloads_def step_download_def render_def
        publish_credentials_def is_publish_def)
  show ?thesis
    using publishes_iff [of r] dispatch static by blast
qed

theorem publish_gate_witness:
  "publishes packaging_workflow
     \<lparr>trigger_event = \<lparr>event_name = ''release'', event_action = Some ''published''\<rparr>, failing = []\<rparr>
   \<and> \<not> publishes packaging_workflow
     \<lparr>trigger_event = \<lparr>event_name = ''workflow_dispatch'', event_action = None\<rparr>, failing = []\<rparr>"
proof -
  let ?rel = "\<lparr>trigger_event = \<lparr>event_name = ''release'', event_action = Some ''published''\<rparr>, failing = []\<rparr>"
  let ?man = "\<lparr>trigger_event = \<lparr>event_name = ''workflow_dispatch'', event_action = None\<rparr>, failing = []\<rparr>"
  have "publishes packaging_workflow ?rel"
    using publish_gate [of ?rel] by simp
  moreover have "\<not> publishes packaging_workflow ?man"
    using publish_gate [of ?man] by simp
  ultimately show ?thesis
    by simp
qed

text \<open>
  Claim C3. The workflow has exactly two triggers, and an event starts a run if and only
  if it is a manual workflow dispatch or a release event of type \<^verbatim>\<open>published\<close>.
\<close>

theorem workflow_triggers:
  "on_events packaging_workflow = [Workflow_dispatch, Release [''published'']]
   \<and> (triggered packaging_workflow ev \<longleftrightarrow>
        event_name ev = ''workflow_dispatch''
        \<or> (event_name ev = ''release'' \<and> event_action ev = Some ''published''))"
  using triggered_iff [of ev] by (simp add: packaging_workflow_def)

theorem workflow_triggers_witness:
  "triggered packaging_workflow \<lparr>event_name = ''workflow_dispatch'', event_action = None\<rparr>
   \<and> triggered packaging_workflow \<lparr>event_name = ''release'', event_action = Some ''published''\<rparr>
   \<and> \<not> triggered packaging_workflow \<lparr>event_name = ''release'', event_action = Some ''created''\<rparr>
   \<and> \<not> triggered packaging_workflow \<lparr>event_name = ''push'', event_action = None\<rparr>"
  using workflow_triggers [of "\<lparr>event_name = ''workflow_dispatch'', event_action = None\<rparr>"]
    workflow_triggers [of "\<lparr>event_name = ''release'', event_action = Some ''published''\<rparr>"]
    workflow_triggers [of "\<lparr>event_name = ''release'', event_action = Some ''created''\<rparr>"]
    workflow_triggers [of "\<lparr>event_name = ''push'', event_action = None\<rparr>"]
  by simp

text \<open>
  Claim C4, as stated, fails: in the manually dispatched run in which the wheel job
  fails, the wheel job is started and the run uploads the sdist artifact only; no wheel
  artifact is uploaded.
\<close>

theorem build_jobs_upload_counterexample:
  "run_workflow packaging_workflow
     \<lparr>trigger_event = \<lparr>event_name = ''workflow_dispatch'', event_action = None\<rparr>,
      failing = [''build_wheels'']\<rparr>
     = Some [(''build_wheels'', Failure), (''build_sdist'', Success), (''upload_pypi'', Skipped)]
   \<and> started [(''build_wheels'', Failure), (''build_sdist'', Success), (''upload_pypi'', Skipped)]
        ''build_wheels''
   \<and> uploaded packaging_workflow
        [(''build_wheels'', Failure), (''build_sdist'', Success), (''upload_pypi'', Skipped)]
     = [(''artifact-sdist'', ''dist/*.tar.gz'')]
   \<and> (''artifact-wheel-ubuntu-latest'', ''./dist/*.whl'') \<notin> set (uploaded packaging_workflow
        [(''build_wheels'', Failure), (''build_sdist'', Success), (''upload_pypi'', Skipped)])"
proof -
  let ?r = "\<lparr>trigger_event = \<lparr>event_name = ''workflow_dispatch'', event_action = None\<rparr>,
      failing = [''build_wheels'']\<rparr>"
  let ?sts = "[(''build_wheels'', Failure), (''build_sdist'', Success), (''upload_pypi'', Skipped)]"
  have sts: "job_statuses ?r (jobs packaging_workflow) [] = ?sts"
    by (simp add: statuses)
  have "run_workflow packaging_workflow ?r = Some ?sts"
    by (simp add: run_workflow_def triggered_iff sts)
  moreover have "uploaded packaging_workflow ?sts = [(''artifact-sdist'', ''dist/*.tar.gz'')]"
    using uploaded_by_status [of ?r] by (simp add: sts)
  moreover have "started ?sts ''build_wheels''"
    by (simp add: started_def)
  ultimately show ?thesis
    by simp
qed

text \<open>
  Claim C4, amended. In every run, whatever event started it, both build jobs are
  started: they have no \<^verbatim>\<open>needs\<close> and no \<^verbatim>\<open>if\<close>. Each build job that succeeds uploads
  its build products as workflow artifacts: the last step of the wheel job uploads
  \<^verbatim>\<open>./dist/*.whl\<close> under the name \<^verbatim>\<open>artifact-wheel-<os>\<close>, for the one value
  \<^verbatim>\<open>ubuntu-latest\<close> of the matrix, and the last step of the sdist job uploads
  \<^verbatim>\<open>dist/*.tar.gz\<close> under the name \<^verbatim>\<open>artifact-sdist\<close>. The uploads of a run are exactly
  the artifacts of its build jobs that succeed.
\<close>

theorem build_jobs_upload:
  assumes "run_workflow packaging_workflow r = Some sts"
  shows "started sts ''build_wheels'' \<and> started sts ''build_sdist''
     \<and> needs build_wheels = [] \<and> if_cond build_wheels = None
     \<and> needs build_sdist = [] \<and> if_cond build_sdist = None
     \<and> job_artifacts build_wheels = [(''artifact-wheel-ubuntu-latest'', ''./dist/*.whl'')]
     \<and> job_artifacts (build_wheels\<lparr>matrix_os := [os]\<rparr>) = [(''artifact-wheel-'' @ os, ''./dist/*.whl'')]
     \<and> job_artifacts build_sdist = [(''artifact-sdist'', ''dist/*.tar.gz'')]
     \<and> ((''artifact-wheel-ubuntu-latest'', ''./dist/*.whl'') \<in> set (uploaded packaging_workflow sts)
          \<longleftrightarrow> ''build_wheels'' \<notin> set (failing r))
     \<and> ((''artifact-sdist'', ''dist/*.tar.gz'') \<in> set (uploaded packaging_workflow sts)
          \<longleftrightarrow> ''build_sdist'' \<notin> set (failing r))
     \<and> uploaded packaging_workflow sts =
          (if ''build_wheels'' \<in> set (failing r) then []
           else [(''artifact-wheel-ubuntu-latest'', ''./dist/*.whl'')])
          @ (if ''build_sdist'' \<in> set (failing r) then []
             else [(''artifact-sdist'', ''dist/*.tar.gz'')])"
proof -
  from assms have sts: "sts = job_statuses r (jobs packaging_workflow) []"
    by (simp add: run_workflow_def split: if_splits)
  have "started sts ''build_wheels''" "started sts ''build_sdist''"
    unfolding sts by (simp_all add: statuses started_def)
  moreover have "needs build_wheels = []" "if_cond build_wheels = None"
    "needs build_sdist = []" "if_cond build_sdist = None"
    by (simp_all add: workflow_defs)
  moreover have up: "uploaded packaging_workflow sts =
          (if ''build_wheels'' \<in> set (failing r) then []
           else [(''artifact-wheel-ubuntu-latest'', ''./dist/*.whl'')])
          @ (if ''build_sdist'' \<in> set (failing r) then []
             else [(''artifact-sdist'', ''dist/*.tar.gz'')])"
    unfolding sts by (rule uploaded_by_status)
  moreover have "(''artifact-wheel-ubuntu-latest'', ''./dist/*.whl'') \<in> set (uploaded packaging_workflow sts)
          \<longleftrightarrow> ''build_wheels'' \<notin> set (failing r)"
    "(''artifact-sdist'', ''dist/*.tar.gz'') \<in> set (uploaded packaging_workflow sts)
          \<longleftrightarrow> ''build_sdist'' \<notin> set (failing r)"
    unfolding up by simp_all
  ultimately show ?thesis
    using artifacts(1,2,4) by blast
qed

theorem build_jobs_upload_witness:
  "run_workflow packaging_workflow
     \<lparr>trigger_event = \<lparr>event_name = ''release'', event_action = Some ''published''\<rparr>, failing = []\<rparr>
     = Some [(''build_wheels'', Success), (''build_sdist'', Success), (''upload_pypi'', Success)]
   \<and> started [(''build_wheels'', Success), (''build_sdist'', Success), (''upload_pypi'', Success)]
        ''build_wheels''
   \<and> started [(''build_wheels'', Success), (''build_sdist'', Success), (''upload_pypi'', Success)]
        ''build_sdist''
   \<and> uploaded packaging_workflow
        [(''build_wheels'', Success), (''build_sdist'', Success), (''upload_pypi'', Success)]
     = [(''artifact-wheel-ubuntu-latest'', ''./dist/*.whl''), (''artifact-sdist'', ''dist/*.tar.gz'')]"
proof -
  let ?r = "\<lparr>trigger_event = \<lparr>event_name = ''release'', event_action = Some ''published''\<rparr>, failing = []\<rparr>"
  let ?sts = "[(''build_wheels'', Success), (''build_sdist'', Success), (''upload_pypi'', Success)]"
  have run: "run_workflow packaging_workflow ?r = Some ?sts"
    by (simp add: run_workflow_def triggered_iff statuses)
  show ?thesis
    using run build_jobs_upload [OF run] by simp
qed

section \<open>Properties of the conditions and of the training set-up\<close>

lemmas condition_defs = pde_condition_def initial_condition_def boundary_condition_def
  bound_cond_def pde_cond_def

lemma constructed:
  "construct_condition pde_condition =
     Some \<lparr>module = ''model'', sampler = ''sampler_pde_condition'',
           residual_fn = ''residual_pde_condition'', weight = 1\<rparr>"
  "construct_condition initial_condition =
     Some \<lparr>module = ''model'', sampler = ''sampler_initial_condition'',
           residual_fn = ''residual_initial_condition'', weight = 1\<rparr>"
  "construct_condition boundary_condition =
     Some \<lparr>module = ''model'', sampler = ''sampler_boundary_condition'',
           residual_fn = ''residual_boundary_condition'', weight = 1\<rparr>"
  "construct_condition bound_cond =
     Some \<lparr>module = ''model'', sampler = ''bound_sampler'',
           residual_fn = ''bound_residual'', weight = 50\<rparr>"
  "construct_condition pde_cond =
     Some \<lparr>module = ''model'', sampler = ''pde_sampler'',
           residual_fn = ''energy_residual'', weight = 1\<rparr>"
  by (simp_all add: condition_defs construct_condition_def make_condition_def)

lemma objective_solver:
  "objective solver =
     Some [Loss ''residual_pde_condition'' ''model'' ''sampler_pde_condition'' 1,
           Loss ''residual_initial_condition'' ''model'' ''sampler_initial_condition'' 1,
           Loss ''residual_boundary_condition'' ''model'' ''sampler_boundary_condition'' 1]"
  by (simp add: objective_def solver_def training_conditions_def constructed loss_terms_def)

text \<open>
  Claim C8. The solver of the PINN tutorial is built from the three conditions
  \<open>pde_condition\<close>, \<open>initial_condition\<close> and \<open>boundary_condition\<close>, and its objective is
  exactly the sum of their three loss terms: the loss of the PDE residual, of the initial
  residual and of the boundary residual, each of the one model at the points of the
  sampler of its own condition. No other term enters the sum.
\<close>

theorem pinn_objective_three_terms:
  "train_conditions solver = [pde_condition, initial_condition, boundary_condition]
   \<and> objective solver =
       Some [Loss ''residual_pde_condition'' ''model'' ''sampler_pde_condition'' 1,
             Loss ''residual_initial_condition'' ''model'' ''sampler_initial_condition'' 1,
             Loss ''residual_boundary_condition'' ''model'' ''sampler_boundary_condition'' 1]
   \<and> objective_value v solver =
       Some (v (Loss ''residual_pde_condition'' ''model'' ''sampler_pde_condition'' 1)
             + v (Loss ''residual_initial_condition'' ''model'' ''sampler_initial_condition'' 1)
             + v (Loss ''residual_boundary_condition'' ''model'' ''sampler_boundary_condition'' 1))"
  by (simp add: objective_value_def objective_solver) (simp add: solver_def training_conditions_def)

theorem pinn_objective_three_terms_witness:
  "objective_value (\<lambda>t. case t of Loss f m s w \<Rightarrow> w * real (length s)) solver = Some 72"
  using pinn_objective_three_terms [of "\<lambda>t. case t of Loss f m s w \<Rightarrow> w * real (length s)"]
  by simp

text \<open>
  Claim C9. Each of the five conditions that the tutorials construct, three
  \<^verbatim>\<open>PINNCondition\<close> and two \<^verbatim>\<open>DeepRitzCondition\<close>, is given exactly one model
  (\<^verbatim>\<open>module\<close>), exactly one \<^verbatim>\<open>sampler\<close> and exactly one residual or integrand function,
  is accepted by the constructor, and defines exactly one loss term.
\<close>

theorem condition_is_pairing:
  "list_all (\<lambda>c. count_key ''module'' c = 1 \<and> count_key ''sampler'' c = 1
                \<and> count_key ''residual_fn'' c + count_key ''integrand_fn'' c = 1
                \<and> (case construct_condition c of None \<Rightarrow> False | Some x \<Rightarrow> length (loss_terms x) = 1))
            tutorial_conditions
   \<and> length tutorial_conditions = 5"
  by (simp add: tutorial_conditions_def constructed loss_terms_def)
    (simp add: condition_defs count_key_def)

theorem condition_is_pairing_witness:
  "count_key ''module'' bound_cond = 1 \<and> count_key ''sampler'' bound_cond = 1
   \<and> count_key ''residual_fn'' bound_cond + count_key ''integrand_fn'' bound_cond = 1
   \<and> map_option loss_terms (construct_condition bound_cond) = Some [Loss ''bound_residual'' ''model'' ''bound_sampler'' 50]"
proof -
  have "bound_cond \<in> set tutorial_conditions"
    by (simp add: tutorial_conditions_def)
  with condition_is_pairing have "count_key ''module'' bound_cond = 1 \<and> count_key ''sampler'' bound_cond = 1
    \<and> count_key ''residual_fn'' bound_cond + count_key ''integrand_fn'' bound_cond = 1"
    by (simp add: list_all_iff)
  then show ?thesis
    by (simp add: constructed loss_terms_def)
qed

text \<open>
  Claim C10, as stated, fails: the trainer of the PINN tutorial is configured with
  \<^verbatim>\<open>logger\<close> and \<^verbatim>\<open>benchmark\<close> as well, which are neither a device selection nor a
  step count, and the selected device is not among its arguments.
\<close>

theorem trainer_only_device_and_steps_counterexample:
  "map fst (kwargs trainer) = [''max_steps'', ''logger'', ''benchmark'']
   \<and> map_of (kwargs trainer) ''logger'' = Some (Truth False)
   \<and> map_of (kwargs trainer) ''benchmark'' = Some (Truth True)"
  by (simp add: trainer_def)

text \<open>
  Claim C10, amended. The supplied material configures the external training framework
  through device selection and step counts and, besides them, through further options of
  the trainer (\<^verbatim>\<open>logger\<close> and \<^verbatim>\<open>benchmark\<close>; in the Deep Ritz tutorial also
  \<^verbatim>\<open>num_sanity_val_steps\<close> and \<^verbatim>\<open>enable_checkpointing\<close>): the PINN tutorial selects
  device 1 exactly when CUDA is available and device 0 otherwise, and configures the
  trainer with \<^verbatim>\<open>max_steps = 5000\<close>. It implements no concurrency of its own: every call
  in the code cells of the supplied notebooks goes into a library through the name its
  import binds, to a method of an object that a library returned, to \<^verbatim>\<open>print\<close> or
  \<^verbatim>\<open>str\<close>, or to a function that the notebook defines (whose own calls are among
  these); \<^verbatim>\<open>os\<close>, the one module imported from outside these libraries, serves
  \<^verbatim>\<open>os.environ\<close> and is never called; and no imported path and no callee has a
  component that names a facility for threads, processes, tasks or subprocesses.
\<close>

theorem device_and_trainer:
  "device cuda = (if cuda then 1 else 0)
   \<and> (device cuda = 1 \<longleftrightarrow> cuda) \<and> (device cuda = 0 \<longleftrightarrow> \<not> cuda)
   \<and> cuda_visible_devices cuda = (if cuda then ''1'' else ''0'')
   \<and> callee trainer = ''pl.Trainer''
   \<and> kwargs trainer = [(''max_steps'', Num 5000), (''logger'', Truth False), (''benchmark'', Truth True)]
   \<and> map_of (kwargs trainer) ''max_steps'' = Some (Num 5000)
   \<and> map_of (kwargs trainer) ''gpus'' = None
   \<and> map_of (kwargs trainer) ''devices'' = None
   \<and> map callee supplied_trainers = [''pl.Trainer'', ''pl.Trainer'', ''pl.Trainer'']
   \<and> map (\<lambda>c. map fst (kwargs c)) supplied_trainers =
       [[''max_steps'', ''logger'', ''benchmark''],
        [''devices'', ''num_sanity_val_steps'', ''benchmark'', ''max_steps'', ''logger'',
         ''enable_checkpointing''],
        [''devices'', ''num_sanity_val_steps'', ''benchmark'', ''max_steps'', ''logger'',
         ''enable_checkpointing'']]
   \<and> map (\<lambda>c. (map_of (kwargs c) ''devices'', map_of (kwargs c) ''max_steps'')) supplied_trainers =
       [(None, Some (Num 5000)), (Some (Num 1), Some (Num 2500)), (Some (Num 1), Some (Num 1000))]
   \<and> list_all (\<lambda>c. head_name c \<in> set ([''tp'', ''np'', ''torch'', ''plt'', ''pl'',
                                            ''ShapelyPolygon'', ''TrimeshPolyhedron'']
                                           @ [''print'', ''str'']
                                           @ supplied_functions @ library_objects))
        supplied_callees
   \<and> filter (\<lambda>c. head_name c = ''os'') supplied_callees = []
   \<and> set (map snd supplied_imports) =
       set [''tp'', ''np'', ''torch'', ''plt'', ''pl'', ''ShapelyPolygon'', ''TrimeshPolyhedron'', ''os'']
   \<and> filter (\<lambda>n. list_ex (\<lambda>k. k \<in> set [''threading'', ''_thread'', ''multiprocessing'',
                                  ''concurrent'', ''futures'', ''asyncio'', ''subprocess'',
                                  ''distributed'', ''Thread'', ''Process'', ''Pool'',
                                  ''ThreadPoolExecutor'', ''ProcessPoolExecutor'', ''spawn'',
                                  ''fork'', ''start_new_thread'', ''system'', ''popen''])
                              (components n))
        (map fst supplied_imports @ supplied_callees) = []"
proof -
  have dev: "device cuda = (if cuda then 1 else 0)"
    "device cuda = 1 \<longleftrightarrow> cuda" "device cuda = 0 \<longleftrightarrow> \<not> cuda"
    "cuda_visible_devices cuda = (if cuda then ''1'' else ''0'')"
    by (simp_all add: device_def cuda_visible_devices_def)
  have tr: "callee trainer = ''pl.Trainer''"
    "kwargs trainer = [(''max_steps'', Num 5000), (''logger'', Truth False), (''benchmark'', Truth True)]"
    "map_of (kwargs trainer) ''max_steps'' = Some (Num 5000)"
    "map_of (kwargs trainer) ''gpus'' = None"
    "map_of (kwargs trainer) ''devices'' = None"
    by (simp_all add: trainer_def)
  have trs: "map callee supplied_trainers = [''pl.Trainer'', ''pl.Trainer'', ''pl.Trainer'']"
    "map (\<lambda>c. map fst (kwargs c)) supplied_trainers =
       [[''max_steps'', ''logger'', ''benchmark''],
        [''devices'', ''num_sanity_val_steps'', ''benchmark'', ''max_steps'', ''logger'',
         ''enable_checkpointing''],
        [''devices'', ''num_sanity_val_steps'', ''benchmark'', ''max_steps'', ''logger'',
         ''enable_checkpointing'']]"
    "map (\<lambda>c. (map_of (kwargs c) ''devices'', map_of (kwargs c) ''max_steps'')) supplied_trainers =
       [(None, Some (Num 5000)), (Some (Num 1), Some (Num 2500)), (Some (Num 1), Some (Num 1000))]"
    by (simp_all add: supplied_trainers_def trainer_def trainer_drm_def trainer_drm_lbfgs_def)
  have heads: "list_all (\<lambda>c. head_name c \<in> set ([''tp'', ''np'', ''torch'', ''plt'', ''pl'',
                                            ''ShapelyPolygon'', ''TrimeshPolyhedron'']
                                           @ [''print'', ''str'']
                                           @ supplied_functions @ library_objects))
        supplied_callees"
    by code_simp
  have no_os: "filter (\<lambda>c. head_name c = ''os'') supplied_callees = []"
    by code_simp
  have names: "set (map snd supplied_imports) =
       set [''tp'', ''np'', ''torch'', ''plt'', ''pl'', ''ShapelyPolygon'', ''TrimeshPolyhedron'', ''os'']"
    by code_simp
  have none: "filter (\<lambda>n. list_ex (\<lambda>k. k \<in> set [''threading'', ''_thread'', ''multiprocessing'',
                                  ''concurrent'', ''futures'', ''asyncio'', ''subprocess'',
                                  ''distributed'', ''Thread'', ''Process'', ''Pool'',
                                  ''ThreadPoolExecutor'', ''ProcessPoolExecutor'', ''spawn'',
                                  ''fork'', ''start_new_thread'', ''system'', ''popen''])
                              (components n))
        (map fst supplied_imports @ supplied_callees) = []"
    by code_simp
  from dev tr trs heads no_os names none show ?thesis
    by (intro conjI) assumption+
qed

theorem device_and_trainer_witness:
  "device True = 1 \<and> device False = 0 \<and> cuda_visible_devices True = ''1''
   \<and> cuda_visible_devices False = ''0''"
  using device_and_trainer [of True] device_and_trainer [of False] by simp

end
